theory Spec2Isabelle
  imports Complex_Main "HOL-Library.Multiset"
begin

section \<open>Column values\<close>

text \<open>
  The notebook \<^verbatim>\<open>CitiBikeAnalysis.ipynb\<close> is a sequence of Spark column transformations.
  Three views of its double arithmetic are used, each where it is faithful to the notebook.

  \<^item> A value of a \<^verbatim>\<open>DoubleType\<close> column as a number or NaN, with the operations of the
    reals and NaN where \<^verbatim>\<open>java.lang.Math\<close> answers NaN (square root of a negative number,
    arcsine outside \<open>[-1, 1]\<close>). Binary rounding and the infinities are not part of this
    view, so it is used only where the result does not depend on rounding: comparisons
    with the literals 1, 4 and 9, counting, and the distance between equal coordinates
    (a difference of equal numbers, its sine, a square and a product with 0). It says
    nothing on the distance of two different points, whose value, NaN included, depends
    on how the platform rounds sine and cosine.
  \<^item> The distance expression over an arbitrary arithmetic (a record of operations), for
    statements that hold whatever the doubles of the platform do.
  \<^item> The one product of the revenue in IEEE 754 binary64, rounded to nearest with ties to
    even, as Python computes it.

  A nullable cell is an \<open>option\<close>, with \<open>None\<close> for SQL null.
\<close>

datatype double = Fin real | NaN

fun lift1 :: "(real \<Rightarrow> real) \<Rightarrow> double \<Rightarrow> double" where
  "lift1 f (Fin x) = Fin (f x)"
| "lift1 f NaN = NaN"

fun lift2 :: "(real \<Rightarrow> real \<Rightarrow> real) \<Rightarrow> double \<Rightarrow> double \<Rightarrow> double" where
  "lift2 f (Fin x) (Fin y) = Fin (f x y)"
| "lift2 f NaN y = NaN"
| "lift2 f (Fin x) NaN = NaN"

definition add_col :: "double \<Rightarrow> double \<Rightarrow> double" where
  "add_col = lift2 (\<lambda>x y. x + y)"

definition sub_col :: "double \<Rightarrow> double \<Rightarrow> double" where
  "sub_col = lift2 (\<lambda>x y. x - y)"

definition mul_col :: "double \<Rightarrow> double \<Rightarrow> double" where
  "mul_col = lift2 (\<lambda>x y. x * y)"

definition half_col :: "double \<Rightarrow> double" where
  \<comment> \<open>\<^verbatim>\<open>column / 2\<close>\<close>
  "half_col = lift1 (\<lambda>x. x / 2)"

definition sq_col :: "double \<Rightarrow> double" where
  \<comment> \<open>\<^verbatim>\<open>column ** 2\<close>\<close>
  "sq_col = lift1 (\<lambda>x. x\<^sup>2)"

definition radians :: "double \<Rightarrow> double" where
  "radians = lift1 (\<lambda>x. x * pi / 180)"

definition sin_col :: "double \<Rightarrow> double" where
  "sin_col = lift1 sin"

definition cos_col :: "double \<Rightarrow> double" where
  "cos_col = lift1 cos"

fun sqrt_col :: "double \<Rightarrow> double" where
  "sqrt_col (Fin x) = (if x < 0 then NaN else Fin (sqrt x))"
| "sqrt_col NaN = NaN"

fun asin_col :: "double \<Rightarrow> double" where
  "asin_col (Fin x) = (if - 1 \<le> x \<and> x \<le> 1 then Fin (arcsin x) else NaN)"
| "asin_col NaN = NaN"

text \<open>
  Spark SQL orders NaN above every number, so \<^verbatim>\<open>NaN > c\<close> is true and \<^verbatim>\<open>NaN <= c\<close> is
  false for a numeric literal \<open>c\<close>.
\<close>

fun le_col :: "double \<Rightarrow> real \<Rightarrow> bool" where
  "le_col (Fin x) c = (x \<le> c)"
| "le_col NaN c = False"

fun gt_col :: "double \<Rightarrow> real \<Rightarrow> bool" where
  "gt_col (Fin x) c = (c < x)"
| "gt_col NaN c = True"

section \<open>Data preparation\<close>

text \<open>
  The six selected columns. The same row shape is used at three stages: the cells as read
  (text or absent), the cells after \<^verbatim>\<open>cast\<close> (typed or null), and the rows that survive
  \<^verbatim>\<open>na.drop()\<close> (every cell a value). A timestamp is a number of microseconds since the
  epoch, as Spark stores it.
\<close>

record ('t, 'd) row =
  started_at :: 't
  ended_at :: 't
  start_lat :: 'd
  start_lng :: 'd
  end_lat :: 'd
  end_lng :: 'd

type_synonym raw_row = "(string option, string option) row"
type_synonym cast_row = "(int option, double option) row"
type_synonym trip = "(int, real) row"

text \<open>
  \<^verbatim>\<open>col(c).cast(T)\<close>: a null cell stays null, and a cell that does not parse becomes null.
  The two parsers are Spark's and are parameters of the model.
\<close>

definition cast :: "(string \<Rightarrow> 'a option) \<Rightarrow> string option \<Rightarrow> 'a option" where
  "cast parse c = (case c of None \<Rightarrow> None | Some s \<Rightarrow> parse s)"

definition select_cast ::
  "(string \<Rightarrow> int option) \<Rightarrow> (string \<Rightarrow> double option) \<Rightarrow> raw_row \<Rightarrow> cast_row" where
  "select_cast to_timestamp to_double r =
     \<lparr>started_at = cast to_timestamp (started_at r),
      ended_at = cast to_timestamp (ended_at r),
      start_lat = cast to_double (start_lat r),
      start_lng = cast to_double (start_lng r),
      end_lat = cast to_double (end_lat r),
      end_lng = cast to_double (end_lng r)\<rparr>"

text \<open>\<^verbatim>\<open>na.drop()\<close> removes a row when any cell is null, or NaN in a double column.\<close>

definition na_ts :: "int option \<Rightarrow> bool" where
  "na_ts c = (c = None)"

definition na_double :: "double option \<Rightarrow> bool" where
  "na_double c = (c = None \<or> c = Some NaN)"

definition has_na :: "cast_row \<Rightarrow> bool" where
  "has_na r =
     (na_ts (started_at r) \<or> na_ts (ended_at r) \<or> na_double (start_lat r) \<or>
      na_double (start_lng r) \<or> na_double (end_lat r) \<or> na_double (end_lng r))"

text \<open>
  A row without such a cell, read as a row of values; \<open>None\<close> for a row that
  \<^verbatim>\<open>na.drop()\<close> removes.
\<close>

definition as_trip :: "cast_row \<Rightarrow> trip option" where
  "as_trip r =
     (case (started_at r, ended_at r) of
        (Some s, Some e) \<Rightarrow>
          (case (start_lat r, start_lng r) of
             (Some (Fin a), Some (Fin b)) \<Rightarrow>
               (case (end_lat r, end_lng r) of
                  (Some (Fin c), Some (Fin d)) \<Rightarrow>
                    Some \<lparr>started_at = s, ended_at = e, start_lat = a, start_lng = b,
                          end_lat = c, end_lng = d\<rparr>
                | _ \<Rightarrow> None)
           | _ \<Rightarrow> None)
      | _ \<Rightarrow> None)"

definition na_drop :: "cast_row list \<Rightarrow> trip list" where
  "na_drop rows = List.map_filter as_trip rows"

text \<open>
  The first cell of the notebook: the cleaned table and the number it prints as dropped,
  \<^verbatim>\<open>count_rows - df.count()\<close>.
\<close>

definition load :: "cast_row list \<Rightarrow> trip list \<times> int" where
  "load rows =
     (let count_rows = int (length rows);
          df = na_drop rows
      in (df, count_rows - int (length df)))"

definition read_csv ::
  "(string \<Rightarrow> int option) \<Rightarrow> (string \<Rightarrow> double option) \<Rightarrow> raw_row list \<Rightarrow> trip list \<times> int" where
  "read_csv to_timestamp to_double raws = load (map (select_cast to_timestamp to_double) raws)"

text \<open>
  The rows the specification counts as dropped: a required cell is missing or does not
  parse. Apart from them, the rows in which every cell parses and a coordinate parses to
  NaN.
\<close>

definition unparseable :: "(string \<Rightarrow> 'a option) \<Rightarrow> string option \<Rightarrow> bool" where
  "unparseable parse c = (case c of None \<Rightarrow> True | Some s \<Rightarrow> parse s = None)"

definition row_missing ::
  "(string \<Rightarrow> int option) \<Rightarrow> (string \<Rightarrow> double option) \<Rightarrow> raw_row \<Rightarrow> bool" where
  "row_missing to_timestamp to_double r =
     (unparseable to_timestamp (started_at r) \<or> unparseable to_timestamp (ended_at r) \<or>
      unparseable to_double (start_lat r) \<or> unparseable to_double (start_lng r) \<or>
      unparseable to_double (end_lat r) \<or> unparseable to_double (end_lng r))"

definition parses_nan :: "(string \<Rightarrow> double option) \<Rightarrow> string option \<Rightarrow> bool" where
  "parses_nan to_double c = (case c of None \<Rightarrow> False | Some s \<Rightarrow> to_double s = Some NaN)"

definition row_nan :: "(string \<Rightarrow> double option) \<Rightarrow> raw_row \<Rightarrow> bool" where
  "row_nan to_double r =
     (parses_nan to_double (start_lat r) \<or> parses_nan to_double (start_lng r) \<or>
      parses_nan to_double (end_lat r) \<or> parses_nan to_double (end_lng r))"

section \<open>Trip duration and long trips\<close>

text \<open>
  \<^verbatim>\<open>(ended_at - started_at).cast("long")\<close>: the interval in microseconds, cut to whole
  seconds towards zero (the division of the JVM).
\<close>

definition quot :: "int \<Rightarrow> int \<Rightarrow> int" where
  "quot a b = sgn a * sgn b * (\<bar>a\<bar> div \<bar>b\<bar>)"

definition tripduration :: "trip \<Rightarrow> int" where
  "tripduration t = quot (ended_at t - started_at t) 1000000"

definition long_trips :: "trip list \<Rightarrow> trip list" where
  "long_trips df = filter (\<lambda>t. 1800 < tripduration t) df"

definition num_trips :: "trip list \<Rightarrow> int" where
  "num_trips df = int (length (long_trips df))"

text \<open>
  \<^verbatim>\<open>expected_revenue = num_trips * 0.2\<close> is a product of a Python \<^verbatim>\<open>int\<close> and a
  \<^verbatim>\<open>float\<close>: the count is converted to a double, the literal is the double nearest to
  0.2, and the product is rounded once, to the nearest double, ties to the even
  significand. A double is written as the real number it stands for. \<open>rnd\<close> is this
  rounding for the normal range of binary64 (53 significant bits); overflow and subnormal
  numbers do not occur in the product of a row count and 0.2.
\<close>

definition round_even :: "real \<Rightarrow> int" where
  "round_even x =
     (let f = \<lfloor>x\<rfloor>; r = x - of_int f
      in if r < 1 / 2 then f else if 1 / 2 < r then f + 1 else if even f then f else f + 1)"

definition rnd :: "real \<Rightarrow> real" where
  "rnd x =
     (if x = 0 then 0
      else let q = 2 powr of_int (\<lfloor>log 2 \<bar>x\<bar>\<rfloor> - 52)
           in of_int (round_even (x / q)) * q)"

definition expected_revenue :: "int \<Rightarrow> real" where
  "expected_revenue n = rnd (rnd (real_of_int n) * rnd 0.2)"

section \<open>Haversine distance\<close>

definition R :: int where
  "R = 3959"

text \<open>The argument of the square root in the notebook's distance expression.\<close>

definition hav_a :: "real \<Rightarrow> real \<Rightarrow> real \<Rightarrow> real \<Rightarrow> double" where
  "hav_a s_lat s_lng e_lat e_lng =
     add_col
       (sq_col (sin_col (half_col (sub_col (radians (Fin e_lat)) (radians (Fin s_lat))))))
       (mul_col
          (mul_col (cos_col (radians (Fin s_lat))) (cos_col (radians (Fin e_lat))))
          (sq_col (sin_col (half_col (sub_col (radians (Fin e_lng)) (radians (Fin s_lng)))))))"

text \<open>What the expression does with that argument: \<^verbatim>\<open>R * 2 * asin(sqrt(...))\<close>.\<close>

definition from_a :: "double \<Rightarrow> double" where
  "from_a a = mul_col (Fin (real_of_int (R * 2))) (asin_col (sqrt_col a))"

definition haversine :: "real \<Rightarrow> real \<Rightarrow> real \<Rightarrow> real \<Rightarrow> double" where
  "haversine s_lat s_lng e_lat e_lng = from_a (hav_a s_lat s_lng e_lat e_lng)"

definition distance :: "trip \<Rightarrow> double" where
  "distance t = haversine (start_lat t) (start_lng t) (end_lat t) (end_lng t)"

text \<open>
  The same expression over any arithmetic of column values: the integer literal, the
  three binary operations, \<^verbatim>\<open>/ 2\<close>, \<^verbatim>\<open>** 2\<close> and the five functions the expression calls.
  The doubles of Spark are one such arithmetic, the numbers above another.
\<close>

record 'd arith =
  a_lit :: "int \<Rightarrow> 'd"
  a_add :: "'d \<Rightarrow> 'd \<Rightarrow> 'd"
  a_sub :: "'d \<Rightarrow> 'd \<Rightarrow> 'd"
  a_mul :: "'d \<Rightarrow> 'd \<Rightarrow> 'd"
  a_half :: "'d \<Rightarrow> 'd"
  a_sq :: "'d \<Rightarrow> 'd"
  a_radians :: "'d \<Rightarrow> 'd"
  a_sin :: "'d \<Rightarrow> 'd"
  a_cos :: "'d \<Rightarrow> 'd"
  a_asin :: "'d \<Rightarrow> 'd"
  a_sqrt :: "'d \<Rightarrow> 'd"

definition distance_in :: "'d arith \<Rightarrow> ('t, 'd) row \<Rightarrow> 'd" where
  "distance_in A t =
     a_mul A (a_lit A (R * 2))
       (a_asin A
          (a_sqrt A
             (a_add A
                (a_sq A (a_sin A (a_half A
                   (a_sub A (a_radians A (end_lat t)) (a_radians A (start_lat t))))))
                (a_mul A
                   (a_mul A (a_cos A (a_radians A (start_lat t)))
                      (a_cos A (a_radians A (end_lat t))))
                   (a_sq A (a_sin A (a_half A
                      (a_sub A (a_radians A (end_lng t)) (a_radians A (start_lng t))))))))))"

definition exact :: "double arith" where
  "exact =
     \<lparr>a_lit = (\<lambda>n. Fin (real_of_int n)), a_add = add_col, a_sub = sub_col, a_mul = mul_col,
      a_half = half_col, a_sq = sq_col, a_radians = radians, a_sin = sin_col,
      a_cos = cos_col, a_asin = asin_col, a_sqrt = sqrt_col\<rparr>"

text \<open>
  The formula as the specification writes it, in the same arithmetic and with the radius
  a parameter: \<open>\<Delta>\<phi>\<close>, \<open>\<Delta>\<lambda>\<close>, \<open>a\<close>, and \<open>2 \<cdot> radius \<cdot> asin(\<surd>a)\<close>, the product \<open>2 \<cdot> radius\<close> being
  a product of integers. Compared with \<^const>\<open>distance_in\<close> below.
\<close>

definition haversine_spec :: "'d arith \<Rightarrow> 'd \<Rightarrow> 'd \<Rightarrow> 'd \<Rightarrow> 'd \<Rightarrow> int \<Rightarrow> 'd" where
  "haversine_spec A lat1 lng1 lat2 lng2 radius =
     (let dphi = a_sub A (a_radians A lat2) (a_radians A lat1);
          dlam = a_sub A (a_radians A lng2) (a_radians A lng1);
          a = a_add A (a_sq A (a_sin A (a_half A dphi)))
                (a_mul A (a_mul A (a_cos A (a_radians A lat1)) (a_cos A (a_radians A lat2)))
                   (a_sq A (a_sin A (a_half A dlam))))
      in a_mul A (a_lit A (2 * radius)) (a_asin A (a_sqrt A a)))"

section \<open>Distance buckets\<close>

text \<open>The three guarded conditions of the \<^verbatim>\<open>when\<close> chain; \<^verbatim>\<open>otherwise\<close> takes the rest.\<close>

definition in_0_1 :: "double \<Rightarrow> bool" where
  "in_0_1 d = le_col d 1"

definition in_2_4 :: "double \<Rightarrow> bool" where
  "in_2_4 d = (gt_col d 1 \<and> le_col d 4)"

definition in_4_9 :: "double \<Rightarrow> bool" where
  "in_4_9 d = (gt_col d 4 \<and> le_col d 9)"

definition in_10_plus :: "double \<Rightarrow> bool" where
  \<comment> \<open>the \<^verbatim>\<open>otherwise\<close> branch: none of the guarded conditions holds\<close>
  "in_10_plus d = (\<not> in_0_1 d \<and> \<not> in_2_4 d \<and> \<not> in_4_9 d)"

definition distance_bucket :: "double \<Rightarrow> string" where
  "distance_bucket d =
     (if in_0_1 d then ''0-1''
      else if in_2_4 d then ''2-4''
      else if in_4_9 d then ''4-9''
      else ''10+'')"

text \<open>
  \<^verbatim>\<open>groupBy(key).count()\<close>: one row for each key that occurs, with the number of rows that
  have it. Spark fixes no order for the rows; the order chosen here is one of them, and the
  statements below about the sorted table hold for every rearrangement.
\<close>

definition groupBy_count :: "'k list \<Rightarrow> ('k \<times> nat) list" where
  "groupBy_count ks = map (\<lambda>k. (k, count_list ks k)) (remdups ks)"

definition bucket_counts_of :: "double list \<Rightarrow> (string \<times> nat) list" where
  "bucket_counts_of ds = groupBy_count (map distance_bucket ds)"

definition bucket_counts :: "trip list \<Rightarrow> (string \<times> nat) list" where
  "bucket_counts df = bucket_counts_of (map distance df)"

definition bucket_order :: "string list" where
  "bucket_order = [''0-1'', ''2-4'', ''4-9'', ''10+'']"

text \<open>
  \<^verbatim>\<open>pd.Categorical(..., categories=bucket_order, ordered=True)\<close> followed by
  \<^verbatim>\<open>sort_values\<close>: rows are ordered by the position of their label in \<^const>\<open>bucket_order\<close>;
  a label outside the categories sorts last.
\<close>

fun position :: "'a \<Rightarrow> 'a list \<Rightarrow> nat" where
  "position x [] = 0"
| "position x (y # ys) = (if x = y then 0 else Suc (position x ys))"

definition category_code :: "string \<Rightarrow> nat" where
  "category_code l = position l bucket_order"

definition sort_values :: "(string \<times> nat) list \<Rightarrow> (string \<times> nat) list" where
  "sort_values rows = sort_key (\<lambda>row. category_code (fst row)) rows"

section \<open>The notebook as a whole\<close>

record report =
  rep_dropped :: int
  rep_num_trips :: int
  rep_expected_revenue :: real
  rep_bucket_pd :: "(string \<times> nat) list"

definition analysis :: "cast_row list \<Rightarrow> report" where
  "analysis rows =
     (let (df, dropped) = load rows;
          n = num_trips df
      in \<lparr>rep_dropped = dropped,
          rep_num_trips = n,
          rep_expected_revenue = expected_revenue n,
          rep_bucket_pd = sort_values (bucket_counts df)\<rparr>)"

section \<open>Data preparation: drop accounting\<close>

lemma as_trip_None_iff: "as_trip r = None \<longleftrightarrow> has_na r"
  by (simp add: as_trip_def has_na_def na_ts_def na_double_def
      split: option.splits double.splits)

lemma length_na_drop:
  "length (na_drop rows) = length (filter (\<lambda>r. \<not> has_na r) rows)"
  by (induction rows) (auto simp: na_drop_def List.map_filter_def as_trip_None_iff [symmetric])

lemma length_na_drop_plus:
  "length (na_drop rows) + length (filter has_na rows) = length rows"
  unfolding length_na_drop using sum_length_filter_compl [of "\<lambda>r. \<not> has_na r" rows] by simp

lemma na_drop_append: "na_drop (xs @ ys) = na_drop xs @ na_drop ys"
  by (simp add: na_drop_def List.map_filter_def)

lemma na_drop_Cons_na: "has_na r \<Longrightarrow> na_drop (r # rows) = na_drop rows"
  by (simp add: na_drop_def List.map_filter_def as_trip_None_iff)

lemma cast_None_iff: "cast parse c = None \<longleftrightarrow> unparseable parse c"
  by (simp add: cast_def unparseable_def split: option.splits)

lemma cast_NaN_iff: "cast to_double c = Some NaN \<longleftrightarrow> parses_nan to_double c"
  by (simp add: cast_def parses_nan_def split: option.splits)

lemma has_na_select_cast:
  "has_na (select_cast to_timestamp to_double r) \<longleftrightarrow>
     row_missing to_timestamp to_double r \<or> row_nan to_double r"
  by (auto simp: has_na_def select_cast_def na_ts_def na_double_def cast_None_iff cast_NaN_iff
      row_missing_def row_nan_def)

lemma length_filter_disj:
  "length (filter (\<lambda>x. P x \<or> Q x) xs) =
     length (filter P xs) + length (filter (\<lambda>x. \<not> P x \<and> Q x) xs)"
  by (induction xs) auto

lemma length_read_csv_single:
  "length (fst (read_csv to_timestamp to_double [r])) =
     (if has_na (select_cast to_timestamp to_double r) then 0 else 1)"
  using length_na_drop [of "[select_cast to_timestamp to_double r]"]
  by (simp add: read_csv_def load_def Let_def)

text \<open>
  C7, as the notebook has it. Of \<open>N\<close> raw rows let \<open>K\<close> have a required cell that is missing
  or does not parse, and let \<open>J\<close> further rows have a coordinate that parses to NaN. The
  loader keeps exactly \<open>N - K - J\<close> rows and prints \<open>K + J\<close> as dropped; when no coordinate
  parses to NaN these are \<open>N - K\<close> and \<open>K\<close>. The loader is a total function of the rows
  whatever the two parsers answer (a cell that does not parse becomes null at the cast):
  each row contributes to the output on its own, no record when it is one of the \<open>K + J\<close>
  and one record otherwise, and leaving it out changes nothing for the rows before and
  after it.
\<close>

theorem drop_accounting:
  "int (length (fst (read_csv to_timestamp to_double raws))) =
     int (length raws) - int (length (filter (row_missing to_timestamp to_double) raws)) -
     int (length (filter (\<lambda>r. \<not> row_missing to_timestamp to_double r \<and> row_nan to_double r)
            raws)) \<and>
   snd (read_csv to_timestamp to_double raws) =
     int (length (filter (row_missing to_timestamp to_double) raws)) +
     int (length (filter (\<lambda>r. \<not> row_missing to_timestamp to_double r \<and> row_nan to_double r)
            raws)) \<and>
   ((\<forall>r \<in> set raws. \<not> row_nan to_double r) \<longrightarrow>
      int (length (fst (read_csv to_timestamp to_double raws))) =
        int (length raws) - int (length (filter (row_missing to_timestamp to_double) raws)) \<and>
      snd (read_csv to_timestamp to_double raws) =
        int (length (filter (row_missing to_timestamp to_double) raws))) \<and>
   (row_missing to_timestamp to_double r \<or> row_nan to_double r \<longrightarrow>
      fst (read_csv to_timestamp to_double (before @ r # after)) =
      fst (read_csv to_timestamp to_double (before @ after))) \<and>
   fst (read_csv to_timestamp to_double (before @ r # after)) =
     fst (read_csv to_timestamp to_double before) @ fst (read_csv to_timestamp to_double [r]) @
     fst (read_csv to_timestamp to_double after) \<and>
   length (fst (read_csv to_timestamp to_double [r])) =
     (if row_missing to_timestamp to_double r \<or> row_nan to_double r then 0 else 1)"
proof -
  let ?c = "select_cast to_timestamp to_double"
  let ?K = "length (filter (row_missing to_timestamp to_double) raws)"
  let ?J = "length (filter (\<lambda>r. \<not> row_missing to_timestamp to_double r \<and> row_nan to_double r)
      raws)"
  have "length (na_drop (map ?c raws)) + length (filter has_na (map ?c raws)) = length raws"
    using length_na_drop_plus [of "map ?c raws"] by simp
  moreover have "length (filter has_na (map ?c raws)) = ?K + ?J"
    by (simp add: filter_map comp_def has_na_select_cast length_filter_disj)
  ultimately have n: "int (length (na_drop (map ?c raws))) = int (length raws) - int ?K - int ?J"
    by linarith
  have J0: "?J = 0" if "\<forall>r \<in> set raws. \<not> row_nan to_double r"
    using that by (simp add: filter_empty_conv)
  have single: "length (fst (read_csv to_timestamp to_double [r])) =
      (if row_missing to_timestamp to_double r \<or> row_nan to_double r then 0 else 1)"
    by (simp only: length_read_csv_single has_na_select_cast)
  have counts: "int (length (fst (read_csv to_timestamp to_double raws))) =
      int (length raws) - int ?K - int ?J"
    "snd (read_csv to_timestamp to_double raws) = int ?K + int ?J"
    using n by (simp_all add: read_csv_def load_def Let_def)
  have excl: "fst (read_csv to_timestamp to_double (before @ r # after)) =
      fst (read_csv to_timestamp to_double (before @ after))"
    if "row_missing to_timestamp to_double r \<or> row_nan to_double r"
    using that by (simp add: read_csv_def load_def Let_def na_drop_append na_drop_Cons_na
        has_na_select_cast)
  have split: "fst (read_csv to_timestamp to_double (before @ r # after)) =
     fst (read_csv to_timestamp to_double before) @ fst (read_csv to_timestamp to_double [r]) @
     fst (read_csv to_timestamp to_double after)"
    using na_drop_append [of "map ?c before" "?c r # map ?c after"]
      na_drop_append [of "[?c r]" "map ?c after"]
    by (simp add: read_csv_def load_def Let_def)
  show ?thesis
    using counts J0 single excl split by simp
qed

text \<open>
  Three rows read with two small parsers: the first lacks \<^verbatim>\<open>end_lat\<close> and has an
  \<^verbatim>\<open>end_lng\<close> that does not parse, the other two are complete. Two records are kept and
  one row is reported as dropped.
\<close>

theorem drop_accounting_witness:
  "(let to_timestamp = (\<lambda>s. if s = ''2025-01-01 00:00:00'' then Some 1735689600000000
                            else if s = ''2025-01-01 00:30:01'' then Some 1735691401000000
                            else None);
        to_double = (\<lambda>s. if s = ''40.7'' then Some (Fin 40.7)
                         else if s = ''-74.0'' then Some (Fin (- 74))
                         else if s = ''NaN'' then Some NaN
                         else None);
        bad = \<lparr>started_at = Some ''2025-01-01 00:00:00'',
                ended_at = Some ''2025-01-01 00:30:01'', start_lat = Some ''40.7'',
                start_lng = Some ''-74.0'', end_lat = None, end_lng = Some ''east''\<rparr>;
        good = \<lparr>started_at = Some ''2025-01-01 00:00:00'',
                 ended_at = Some ''2025-01-01 00:30:01'', start_lat = Some ''40.7'',
                 start_lng = Some ''-74.0'', end_lat = Some ''40.7'',
                 end_lng = Some ''-74.0''\<rparr>;
        kept = \<lparr>started_at = 1735689600000000, ended_at = 1735691401000000,
                 start_lat = 40.7, start_lng = - 74, end_lat = 40.7, end_lng = - 74\<rparr>
    in row_missing to_timestamp to_double bad \<and>
       length (filter (row_missing to_timestamp to_double) [good, bad, good]) = 1 \<and>
       read_csv to_timestamp to_double [good, bad, good] = ([kept, kept], 1))"
proof -
  let ?p = "\<lambda>s. if s = ''2025-01-01 00:00:00'' then Some (1735689600000000::int)
                            else if s = ''2025-01-01 00:30:01'' then Some 1735691401000000
                            else None"
  let ?q = "\<lambda>s. if s = ''40.7'' then Some (Fin 40.7)
                         else if s = ''-74.0'' then Some (Fin (- 74))
                         else if s = ''NaN'' then Some NaN
                         else None"
  let ?bad = "\<lparr>started_at = Some ''2025-01-01 00:00:00'',
                ended_at = Some ''2025-01-01 00:30:01'', start_lat = Some ''40.7'',
                start_lng = Some ''-74.0'', end_lat = None, end_lng = Some ''east''\<rparr>"
  let ?good = "\<lparr>started_at = Some ''2025-01-01 00:00:00'',
                 ended_at = Some ''2025-01-01 00:30:01'', start_lat = Some ''40.7'',
                 start_lng = Some ''-74.0'', end_lat = Some ''40.7'',
                 end_lng = Some ''-74.0''\<rparr>"
  have nan: "\<forall>r \<in> set [?good, ?bad, ?good]. \<not> row_nan ?q r"
    by (simp add: row_nan_def parses_nan_def)
  have bad: "row_missing ?p ?q ?bad"
    by (simp add: row_missing_def unparseable_def)
  have good: "\<not> row_missing ?p ?q ?good"
    by (simp add: row_missing_def unparseable_def)
  have one: "fst (read_csv ?p ?q [?good]) =
      [\<lparr>started_at = 1735689600000000, ended_at = 1735691401000000,
        start_lat = 40.7, start_lng = - 74, end_lat = 40.7, end_lng = - 74\<rparr>]"
    by (simp add: read_csv_def load_def na_drop_def List.map_filter_def as_trip_def
        select_cast_def cast_def)
  have none: "fst (read_csv ?p ?q []) = []"
    by (simp add: read_csv_def load_def na_drop_def List.map_filter_def)
  note dr = drop_accounting [where to_timestamp = ?p and to_double = ?q
      and raws = "[?good, ?bad, ?good]" and r = ?bad and before = "[?good]"
      and after = "[?good]"]
  note dg = drop_accounting [where to_timestamp = ?p and to_double = ?q
      and raws = "[]" and r = ?good and before = "[]" and after = "[?good]"]
  have "fst (read_csv ?p ?q [?good, ?bad, ?good]) = fst (read_csv ?p ?q [?good, ?good])"
    using dr bad by simp
  also have "\<dots> = fst (read_csv ?p ?q [?good]) @ fst (read_csv ?p ?q [?good])"
    using dg none by simp
  finally have kept: "fst (read_csv ?p ?q [?good, ?bad, ?good]) =
      [\<lparr>started_at = 1735689600000000, ended_at = 1735691401000000,
        start_lat = 40.7, start_lng = - 74, end_lat = 40.7, end_lng = - 74\<rparr>,
       \<lparr>started_at = 1735689600000000, ended_at = 1735691401000000,
        start_lat = 40.7, start_lng = - 74, end_lat = 40.7, end_lng = - 74\<rparr>]"
    unfolding one by simp
  have K: "length (filter (row_missing ?p ?q) [?good, ?bad, ?good]) = 1"
    using bad good by simp
  have "snd (read_csv ?p ?q [?good, ?bad, ?good]) = 1"
    using dr nan K by simp
  then have "read_csv ?p ?q [?good, ?bad, ?good] =
      ([\<lparr>started_at = 1735689600000000, ended_at = 1735691401000000,
        start_lat = 40.7, start_lng = - 74, end_lat = 40.7, end_lng = - 74\<rparr>,
       \<lparr>started_at = 1735689600000000, ended_at = 1735691401000000,
        start_lat = 40.7, start_lng = - 74, end_lat = 40.7, end_lng = - 74\<rparr>], 1)"
    using kept by (simp add: prod_eq_iff)
  then show ?thesis
    using bad K unfolding Let_def by simp
qed

text \<open>
  C7, as the claim has it, fails: in a single row whose six cells are all present and all
  parse, the text \<^verbatim>\<open>NaN\<close> for \<^verbatim>\<open>start_lat\<close> parses to the double NaN. No row has a missing
  or unparseable cell (\<open>N = 1\<close>, \<open>K = 0\<close>), yet no record is kept and one row is reported as
  dropped.
\<close>

theorem drop_accounting_counterexample:
  "(let to_timestamp = (\<lambda>s. if s = ''2025-01-01 00:00:00'' then Some 1735689600000000
                            else if s = ''2025-01-01 00:30:01'' then Some 1735691401000000
                            else None);
        to_double = (\<lambda>s. if s = ''40.7'' then Some (Fin 40.7)
                         else if s = ''-74.0'' then Some (Fin (- 74))
                         else if s = ''NaN'' then Some NaN
                         else None);
        r = \<lparr>started_at = Some ''2025-01-01 00:00:00'',
              ended_at = Some ''2025-01-01 00:30:01'', start_lat = Some ''NaN'',
              start_lng = Some ''-74.0'', end_lat = Some ''40.7'', end_lng = Some ''-74.0''\<rparr>
    in \<not> row_missing to_timestamp to_double r \<and>
       length (filter (row_missing to_timestamp to_double) [r]) = 0 \<and>
       read_csv to_timestamp to_double [r] = ([], 1))"
  by (simp add: Let_def row_missing_def unparseable_def read_csv_def load_def na_drop_def
      List.map_filter_def as_trip_def select_cast_def cast_def)

section \<open>Bucket ranges\<close>

lemma distance_bucket_Fin:
  "distance_bucket (Fin d) =
     (if d \<le> 1 then ''0-1'' else if d \<le> 4 then ''2-4'' else if d \<le> 9 then ''4-9'' else ''10+'')"
  by (simp add: distance_bucket_def in_0_1_def in_2_4_def in_4_9_def)

text \<open>
  C3. On a number \<open>d\<close> the three guarded conditions and the \<^verbatim>\<open>otherwise\<close> branch are the
  ranges \<open>(-\<infinity>, 1]\<close>, \<open>(1, 4]\<close>, \<open>(4, 9]\<close> and \<open>(9, \<infinity>)\<close>, they carry the labels
  \<^verbatim>\<open>0-1\<close>, \<^verbatim>\<open>2-4\<close>, \<^verbatim>\<open>4-9\<close> and \<^verbatim>\<open>10+\<close>, and exactly one of the four holds (for
  every \<open>d\<close>, the non-negative ones among them).
\<close>

theorem bucket_ranges:
  "in_0_1 (Fin d) = (d \<le> 1) \<and>
   in_2_4 (Fin d) = (1 < d \<and> d \<le> 4) \<and>
   in_4_9 (Fin d) = (4 < d \<and> d \<le> 9) \<and>
   in_10_plus (Fin d) = (9 < d) \<and>
   (distance_bucket (Fin d) = ''0-1'') = in_0_1 (Fin d) \<and>
   (distance_bucket (Fin d) = ''2-4'') = in_2_4 (Fin d) \<and>
   (distance_bucket (Fin d) = ''4-9'') = in_4_9 (Fin d) \<and>
   (distance_bucket (Fin d) = ''10+'') = in_10_plus (Fin d) \<and>
   count_list [in_0_1 (Fin d), in_2_4 (Fin d), in_4_9 (Fin d), in_10_plus (Fin d)] True = 1"
  by (auto simp: distance_bucket_def in_0_1_def in_2_4_def in_4_9_def in_10_plus_def)

theorem bucket_ranges_witness:
  "distance_bucket (Fin 0) = ''0-1'' \<and> distance_bucket (Fin 1) = ''0-1'' \<and>
   distance_bucket (Fin 4) = ''2-4'' \<and> distance_bucket (Fin 9) = ''4-9'' \<and>
   distance_bucket (Fin 10) = ''10+''"
  using bucket_ranges [of 0] bucket_ranges [of 1] bucket_ranges [of 4] bucket_ranges [of 9]
    bucket_ranges [of 10]
  by (simp add: in_0_1_def in_2_4_def in_4_9_def in_10_plus_def)

section \<open>The distance expression on numbers\<close>

lemma hav_a_Fin:
  "hav_a s_lat s_lng e_lat e_lng =
     Fin ((sin ((e_lat * pi / 180 - s_lat * pi / 180) / 2))\<^sup>2 +
          cos (s_lat * pi / 180) * cos (e_lat * pi / 180) *
          (sin ((e_lng * pi / 180 - s_lng * pi / 180) / 2))\<^sup>2)"
  by (simp add: hav_a_def add_col_def sub_col_def mul_col_def half_col_def sq_col_def
      radians_def sin_col_def cos_col_def)

lemma from_a_Fin:
  "from_a (Fin a) =
     (if a < 0 \<or> 1 < a then NaN else Fin (real_of_int (R * 2) * arcsin (sqrt a)))"
proof -
  have "- 1 \<le> sqrt a" if "0 \<le> a"
    using that real_sqrt_ge_zero [of a] by linarith
  then show ?thesis
    by (auto simp: from_a_def mul_col_def)
qed

lemma haversine_same: "haversine lat lng lat lng = Fin 0"
  by (simp add: haversine_def hav_a_Fin from_a_Fin)

section \<open>The distance column and the Haversine formula\<close>

text \<open>
  C2. In every arithmetic of column values, and so in the doubles of the platform, the
  distance column of every row is the Haversine formula of the specification at the row's
  coordinates: \<open>\<Delta>\<phi>\<close> and \<open>\<Delta>\<lambda>\<close> the differences of the coordinates in radians, \<open>a\<close> the sum
  of the squared sine of \<open>\<Delta>\<phi>/2\<close> and of the two cosines times the squared sine of
  \<open>\<Delta>\<lambda>/2\<close>, and the distance \<open>2 \<cdot> radius \<cdot> asin(\<surd>a)\<close>, with the one radius \<open>R\<close> of the
  notebook, 3959. The distance on numbers used for the buckets is the instance at the
  arithmetic \<^const>\<open>exact\<close>.
\<close>

theorem distance_is_haversine:
  "distance_in A t = haversine_spec A (start_lat t) (start_lng t) (end_lat t) (end_lng t) R \<and>
   R = 3959 \<and>
   distance u =
     haversine_spec exact (Fin (start_lat u)) (Fin (start_lng u)) (Fin (end_lat u))
       (Fin (end_lng u)) R"
  by (simp add: distance_in_def haversine_spec_def Let_def mult.commute [of R 2] R_def
      distance_def haversine_def hav_a_def from_a_def exact_def)

text \<open>C9. The distance from a point to itself is 0.\<close>

theorem identity_distance:
  "haversine lat lng lat lng = Fin 0 \<and>
   distance (t\<lparr>end_lat := start_lat t, end_lng := start_lng t\<rparr>) = Fin 0"
  by (simp add: distance_def haversine_same)

section \<open>Long trips\<close>

lemma quot_nonpos: "a \<le> 0 \<Longrightarrow> quot a 1000000 \<le> 0"
  by (simp add: quot_def sgn_if mult_le_0_iff pos_imp_zdiv_nonneg_iff)

lemma map_of_groupBy_count:
  "map_of (groupBy_count ks) k = (if k \<in> set ks then Some (count_list ks k) else None)"
  by (simp add: groupBy_count_def map_of_map_restrict restrict_map_def)

lemma keys_groupBy_count: "map fst (groupBy_count ks) = remdups ks"
  by (simp add: groupBy_count_def comp_def)

lemma set_groupBy_count: "set (groupBy_count ks) = (\<lambda>k. (k, count_list ks k)) ` set ks"
  by (simp add: groupBy_count_def)

lemma quot_nonneg: "0 \<le> a \<Longrightarrow> quot a 1000000 = a div 1000000"
  by (simp add: quot_def sgn_if)

lemma long_iff: "1800 < tripduration t \<longleftrightarrow> 1801000000 \<le> ended_at t - started_at t"
proof (cases "0 \<le> ended_at t - started_at t")
  case True
  then show ?thesis
    unfolding tripduration_def by (simp only: quot_nonneg) arith
next
  case False
  then have "quot (ended_at t - started_at t) 1000000 \<le> 0"
    by (intro quot_nonpos) simp
  then show ?thesis
    using False unfolding tripduration_def by linarith
qed

text \<open>
  C5. The number of long trips is the number of rows whose duration in seconds is greater
  than 1800, where the duration of a row that ends no earlier than it starts is the
  number of whole seconds between its two timestamps: the long trips are the rows that
  end at least 1801 seconds after they start. A row that ends no later than it starts has
  a duration of at most 0; a row with such a duration is not among the long trips, adding
  it to the table leaves the count as it is, and it is counted in the bucket of its
  distance.
\<close>

theorem long_trip_count:
  "num_trips df = int (length (filter (\<lambda>t. 1800 < tripduration t) df)) \<and>
   num_trips df = int (length (filter (\<lambda>t. 1801000000 \<le> ended_at t - started_at t) df)) \<and>
   (0 \<le> ended_at t - started_at t \<longrightarrow>
      tripduration t = (ended_at t - started_at t) div 1000000) \<and>
   (ended_at t \<le> started_at t \<longrightarrow> tripduration t \<le> 0) \<and>
   (tripduration t \<le> 0 \<longrightarrow>
      t \<notin> set (long_trips df) \<and>
      num_trips (df1 @ t # df2) = num_trips (df1 @ df2) \<and>
      map_of (bucket_counts (df1 @ t # df2)) (distance_bucket (distance t)) =
        Some (count_list (map (\<lambda>u. distance_bucket (distance u)) (df1 @ df2))
                (distance_bucket (distance t)) + 1))"
proof -
  have "num_trips df = int (length (filter (\<lambda>t. 1801000000 \<le> ended_at t - started_at t) df))"
    by (simp add: num_trips_def long_trips_def long_iff)
  moreover have "tripduration t = (ended_at t - started_at t) div 1000000"
    if "0 \<le> ended_at t - started_at t"
    using that by (simp add: tripduration_def quot_nonneg)
  ultimately show ?thesis
    by (simp add: num_trips_def long_trips_def tripduration_def quot_nonpos bucket_counts_def
        bucket_counts_of_def map_of_groupBy_count comp_def)
qed

text \<open>
  Three rows between the same two points: one of 1800.999999 seconds, one of 1801 seconds
  and one that ends five seconds before it starts. Only the second is a long trip, and
  the bucket \<^verbatim>\<open>0-1\<close> holds all three.
\<close>

theorem long_trip_count_witness:
  "(let a = \<lparr>started_at = 0, ended_at = 1800999999, start_lat = 0, start_lng = 0,
              end_lat = 0, end_lng = 0\<rparr>;
        b = \<lparr>started_at = 0, ended_at = 1801000000, start_lat = 0, start_lng = 0,
              end_lat = 0, end_lng = 0\<rparr>;
        c = \<lparr>started_at = 5000000, ended_at = 0, start_lat = 0, start_lng = 0,
              end_lat = 0, end_lng = 0\<rparr>
    in tripduration a = 1800 \<and> tripduration b = 1801 \<and> tripduration c = - 5 \<and>
       c \<notin> set (long_trips [a, b, c]) \<and> num_trips [a, b, c] = 1 \<and>
       map_of (bucket_counts [a, b, c]) ''0-1'' = Some 3)"
proof -
  let ?a = "\<lparr>started_at = 0::int, ended_at = 1800999999, start_lat = 0::real, start_lng = 0,
              end_lat = 0, end_lng = 0\<rparr>"
  let ?b = "\<lparr>started_at = 0::int, ended_at = 1801000000, start_lat = 0::real, start_lng = 0,
              end_lat = 0, end_lng = 0\<rparr>"
  let ?c = "\<lparr>started_at = 5000000::int, ended_at = 0, start_lat = 0::real, start_lng = 0,
              end_lat = 0, end_lng = 0\<rparr>"
  note fwd_a = long_trip_count [where t = ?a and df = "[?a, ?b, ?c]" and ?df1.0 = "[]"
      and ?df2.0 = "[]"]
  note fwd_b = long_trip_count [where t = ?b and df = "[?a, ?b, ?c]" and ?df1.0 = "[]"
      and ?df2.0 = "[]"]
  note bwd = long_trip_count [where t = ?c and df = "[?a, ?b, ?c]" and ?df1.0 = "[?a, ?b]"
      and ?df2.0 = "[]"]
  have a: "tripduration ?a = 1800"
    using fwd_a by simp
  have b: "tripduration ?b = 1801"
    using fwd_b by simp
  have c: "tripduration ?c = - 5"
    by (simp add: tripduration_def quot_def)
  have "num_trips [?a, ?b, ?c] = num_trips [?a, ?b]"
    using bwd c by simp
  then have n: "num_trips [?a, ?b, ?c] = 1"
    using a b by (simp add: num_trips_def long_trips_def)
  have d: "distance_bucket (distance ?a) = ''0-1''" "distance_bucket (distance ?b) = ''0-1''"
    "distance_bucket (distance ?c) = ''0-1''"
    by (simp_all add: distance_def haversine_same distance_bucket_Fin)
  have "map_of (bucket_counts [?a, ?b, ?c]) ''0-1'' = Some 3"
    using bwd c d by simp
  moreover have "?c \<notin> set (long_trips [?a, ?b, ?c])"
    using bwd c by simp
  ultimately show ?thesis
    using a b c n unfolding Let_def by simp
qed

section \<open>The revenue product\<close>









lemma expected_revenue_zero: "expected_revenue 0 = 0"
  by (simp add: expected_revenue_def rnd_def)




section \<open>The bucket table\<close>

lemma NaN_bucket: "distance_bucket NaN = ''10+''"
  by (simp add: distance_bucket_def in_0_1_def in_2_4_def in_4_9_def)

text \<open>
  C10. A distance that is NaN meets none of the three guarded conditions, so the
  \<^verbatim>\<open>otherwise\<close> branch labels it \<^verbatim>\<open>10+\<close>; the row is counted in that bucket, and the
  sorted table shows it there.
\<close>

theorem nan_counted:
  "\<not> in_0_1 NaN \<and> \<not> in_2_4 NaN \<and> \<not> in_4_9 NaN \<and> distance_bucket NaN = ''10+'' \<and>
   map_of (bucket_counts_of (ds1 @ NaN # ds2)) ''10+'' =
     Some (count_list (map distance_bucket (ds1 @ ds2)) ''10+'' + 1) \<and>
   (''10+'', count_list (map distance_bucket (ds1 @ ds2)) ''10+'' + 1)
     \<in> set (sort_values (bucket_counts_of (ds1 @ NaN # ds2)))"
  by (simp add: NaN_bucket bucket_counts_of_def map_of_groupBy_count sort_values_def
      set_groupBy_count image_iff in_0_1_def in_2_4_def in_4_9_def)

theorem nan_counted_witness:
  "sort_values (bucket_counts_of [Fin 12, NaN, Fin 0.5]) = [(''0-1'', 1), (''10+'', 2)]"
  using nan_counted [of "[Fin 12]" "[Fin 0.5]"]
  by (simp add: sort_values_def bucket_counts_of_def groupBy_count_def distance_bucket_Fin
      NaN_bucket category_code_def bucket_order_def)

text \<open>Two lists that are sorted by a key without repetition and have the same elements.\<close>

lemma sorted_key_unique:
  assumes "sorted (map f xs)" "distinct (map f xs)"
    and "sorted (map f ys)" "distinct (map f ys)"
    and "set xs = set ys"
  shows "xs = ys"
proof -
  have "set (map f xs) = set (map f ys)"
    using assms(5) by simp
  then have "map f xs = map f ys"
    using assms(1-4) by (intro sorted_distinct_set_unique)
  moreover have "inj_on f (set xs \<union> set ys)"
    using assms(2,5) by (simp add: distinct_map)
  ultimately show ?thesis
    by (simp add: inj_on_map_eq_map)
qed

lemma category_codes:
  "category_code ''0-1'' = 0" "category_code ''2-4'' = 1"
  "category_code ''4-9'' = 2" "category_code ''10+'' = 3"
  by (simp_all add: category_code_def bucket_order_def)

lemma distance_bucket_cases:
  "distance_bucket d = ''0-1'' \<or> distance_bucket d = ''2-4'' \<or>
   distance_bucket d = ''4-9'' \<or> distance_bucket d = ''10+''"
  by (simp add: distance_bucket_def)

lemma distance_bucket_in_order: "distance_bucket d \<in> set bucket_order"
  using distance_bucket_cases [of d] by (auto simp: bucket_order_def)

lemma category_code_inj: "inj_on category_code (set bucket_order)"
  by (simp add: bucket_order_def category_codes)

lemma count_list_pos: "0 < count_list ks k \<longleftrightarrow> k \<in> set ks"
  using count_list_0_iff [of ks k] by auto

text \<open>The labels that occur, in display order, each with its count.\<close>

lemma occupied_keys:
  "map (\<lambda>row. category_code (fst row))
     (filter (\<lambda>row. 0 < snd row) (map (\<lambda>l. (l, count_list ks l)) bucket_order)) =
   filter (\<lambda>i. 0 < count_list ks (bucket_order ! i)) [0, 1, 2, 3]"
  by (simp add: bucket_order_def category_codes)

lemma occupied_sorted:
  "sorted (map (\<lambda>row. category_code (fst row))
     (filter (\<lambda>row. 0 < snd row) (map (\<lambda>l. (l, count_list ks l)) bucket_order)))"
  unfolding occupied_keys by (rule sorted_wrt_filter) simp

lemma occupied_distinct:
  "distinct (map (\<lambda>row. category_code (fst row))
     (filter (\<lambda>row. 0 < snd row) (map (\<lambda>l. (l, count_list ks l)) bucket_order)))"
  unfolding occupied_keys by (rule distinct_filter) simp

lemma occupied_set:
  "set ks \<subseteq> set bucket_order \<Longrightarrow>
   set (filter (\<lambda>row. 0 < snd row) (map (\<lambda>l. (l, count_list ks l)) bucket_order)) =
   (\<lambda>k. (k, count_list ks k)) ` set ks"
  by (auto simp: count_list_pos)

text \<open>
  C4, as the notebook has it. Whatever the order of the records and whatever the order in
  which the grouping returns its rows, the sorted table lists, in the display order
  \<^verbatim>\<open>0-1\<close>, \<^verbatim>\<open>2-4\<close>, \<^verbatim>\<open>4-9\<close>, \<^verbatim>\<open>10+\<close>, the labels that at least one trip falls into, each
  with its count. A bucket without a trip has no row.
\<close>

theorem bucket_table:
  assumes "mset ds' = mset ds" and "mset rows = mset (bucket_counts_of ds')"
  shows "sort_values rows =
     filter (\<lambda>row. 0 < snd row)
       (map (\<lambda>l. (l, count_list (map distance_bucket ds) l)) bucket_order)"
proof -
  let ?f = "\<lambda>row. category_code (fst row)"
  let ?ks = "map distance_bucket ds'"
  have sub: "set ?ks \<subseteq> set bucket_order"
    by (auto simp: distance_bucket_in_order)
  have "mset ?ks = mset (map distance_bucket ds)"
    using assms(1) by simp
  then have cnt: "count_list ?ks l = count_list (map distance_bucket ds) l" for l
    by (metis count_mset)
  have rows_set: "set rows = set (groupBy_count ?ks)"
    using assms(2) unfolding bucket_counts_of_def by (rule mset_eq_setD)
  have "mset (map fst rows) = mset (map fst (groupBy_count ?ks))"
    using assms(2) unfolding bucket_counts_of_def by simp
  then have "distinct (map fst rows) = distinct (map fst (groupBy_count ?ks))"
    by (rule mset_eq_imp_distinct_iff)
  then have dist_keys: "distinct (map fst rows)"
    by (simp add: keys_groupBy_count)
  have "fst ` set rows \<subseteq> set bucket_order"
    using sub by (auto simp: rows_set set_groupBy_count)
  then have "inj_on category_code (fst ` set rows)"
    using category_code_inj by (rule inj_on_subset [rotated])
  then have "distinct (map category_code (map fst rows))"
    using dist_keys by (subst distinct_map) simp
  then have dist_rows: "distinct (map ?f rows)"
    by (simp add: comp_def)
  have "mset (map ?f (sort_key ?f rows)) = mset (map ?f rows)"
    by simp
  then have "distinct (map ?f (sort_key ?f rows)) = distinct (map ?f rows)"
    by (rule mset_eq_imp_distinct_iff)
  then have d1: "distinct (map ?f (sort_values rows))"
    using dist_rows by (simp add: sort_values_def)
  have s1: "sorted (map ?f (sort_values rows))"
    by (simp add: sort_values_def)
  have "set (sort_values rows) =
      set (filter (\<lambda>row. 0 < snd row) (map (\<lambda>l. (l, count_list ?ks l)) bucket_order))"
    using sub by (simp only: occupied_set) (simp add: sort_values_def rows_set set_groupBy_count)
  then have "sort_values rows =
      filter (\<lambda>row. 0 < snd row) (map (\<lambda>l. (l, count_list ?ks l)) bucket_order)"
    using s1 d1 occupied_sorted occupied_distinct by (intro sorted_key_unique [of ?f])
  then show ?thesis
    by (simp add: cnt)
qed

text \<open>
  Four distances in another order than the records had, and the three rows of their
  grouping in an order that is not the display order.
\<close>

theorem bucket_table_witness:
  "sort_values [(''10+'', 1), (''0-1'', 2), (''2-4'', 1)] =
     [(''0-1'', 2), (''2-4'', 1), (''10+'', 1)]"
proof -
  have 1: "mset [Fin 0.5, Fin 15, Fin 3, Fin 0.7] = mset [Fin 15, Fin 3, Fin 0.5, Fin 0.7]"
    by simp
  have 2: "mset [(''10+'', 1), (''0-1'', 2), (''2-4'', 1)] =
      mset (bucket_counts_of [Fin 0.5, Fin 15, Fin 3, Fin 0.7])"
    by (simp add: bucket_counts_of_def groupBy_count_def distance_bucket_Fin)
  show ?thesis
    using bucket_table [OF 1 2] by (simp add: distance_bucket_Fin bucket_order_def)
qed

text \<open>
  C4, as the claim has it, fails on the scenario of the specification: for the distances
  0.5, 3.0 and 15.0 the table has three rows, and no row \<^verbatim>\<open>4-9\<close> with count 0.
\<close>

theorem bucket_table_counterexample:
  "sort_values (bucket_counts_of [Fin 0.5, Fin 3, Fin 15]) =
     [(''0-1'', 1), (''2-4'', 1), (''10+'', 1)] \<and>
   sort_values (bucket_counts_of [Fin 0.5, Fin 3, Fin 15]) \<noteq>
     [(''0-1'', 1), (''2-4'', 1), (''4-9'', 0), (''10+'', 1)]"
  by (simp add: sort_values_def bucket_counts_of_def groupBy_count_def distance_bucket_Fin
      category_code_def bucket_order_def)

section \<open>No surviving record\<close>

text \<open>
  C8, as the notebook has it. When no row survives \<^verbatim>\<open>na.drop()\<close> the notebook runs to its
  end as on any other input: every row is reported as dropped, the count of long trips
  and the revenue are 0, and the bucket table has no row.
\<close>

theorem no_record_report:
  "na_drop rows = [] \<Longrightarrow>
   analysis rows = \<lparr>rep_dropped = int (length rows), rep_num_trips = 0,
     rep_expected_revenue = 0, rep_bucket_pd = []\<rparr>"
  by (simp add: analysis_def load_def Let_def num_trips_def long_trips_def expected_revenue_zero
      bucket_counts_def bucket_counts_of_def groupBy_count_def sort_values_def)

theorem no_record_report_witness:
  "na_drop [\<lparr>started_at = None, ended_at = Some 0, start_lat = Some (Fin 0),
      start_lng = Some NaN, end_lat = Some (Fin 0), end_lng = Some (Fin 0)\<rparr>] = [] \<and>
   analysis [\<lparr>started_at = None, ended_at = Some 0, start_lat = Some (Fin 0),
      start_lng = Some NaN, end_lat = Some (Fin 0), end_lng = Some (Fin 0)\<rparr>] =
   \<lparr>rep_dropped = 1, rep_num_trips = 0, rep_expected_revenue = 0, rep_bucket_pd = []\<rparr>"
proof -
  have 1: "na_drop [\<lparr>started_at = None, ended_at = Some 0, start_lat = Some (Fin 0),
      start_lng = Some NaN, end_lat = Some (Fin 0), end_lng = Some (Fin 0)\<rparr>] = []"
    by (simp add: na_drop_def List.map_filter_def as_trip_def)
  show ?thesis
    using 1 no_record_report [OF 1] by simp
qed

text \<open>
  C8, as the claim has it, fails: a table whose only row lacks the end coordinates gives
  an ordinary report of zeros and an empty bucket table, and no condition of its own.
\<close>

theorem no_record_counterexample:
  "analysis [\<lparr>started_at = Some 0, ended_at = Some 60000000, start_lat = Some (Fin 40.7),
      start_lng = Some (Fin (- 74)), end_lat = None, end_lng = None\<rparr>] =
   \<lparr>rep_dropped = 1, rep_num_trips = 0, rep_expected_revenue = 0, rep_bucket_pd = []\<rparr>"
  by (simp add: analysis_def load_def Let_def num_trips_def long_trips_def expected_revenue_zero
      bucket_counts_def bucket_counts_of_def groupBy_count_def sort_values_def na_drop_def
      List.map_filter_def as_trip_def)

end
